theory Spec2Isabelle
  imports Main "HOL-Library.Extended_Nat"
begin

section \<open>Values shared by the storage layer and the routes\<close>

text \<open>
  Failures of the persistence backend. Every \<open>await db...\<close> of \<open>storage.ts\<close> can reject;
  the rejection is the \<open>Inl\<close> branch of the result of the modelled operation.
\<close>

datatype db_error =
    StorageUnavailable
  | UniqueViolation
  | ForeignKeyViolation
  | InvalidTextRepresentation
  | NumericValueOutOfRange
  | SequenceExhausted
  | InvalidRowCount

text \<open>
  A JavaScript \<open>number\<close>, identified by the decimal digits that the language's own
  \<open>Number::toString\<close> prints for it: \<open>Finite neg s e\<close> is the number
  \<open>(-1)^neg * s * 10^e\<close>; \<open>Infinite neg\<close> is \<open>Infinity\<close> or \<open>-Infinity\<close>.
\<close>

datatype jsnum = NaN | Infinite bool | Finite bool nat int

text \<open>The whole number a \<open>number\<close> denotes, if it denotes one.\<close>

fun jsnum_integer :: "jsnum \<Rightarrow> int option" where
  "jsnum_integer (Finite neg s e) =
     (if 0 \<le> e then Some ((if neg then - 1 else 1) * int s * 10 ^ nat e)
      else if s mod 10 ^ nat (- e) = 0
        then Some ((if neg then - 1 else 1) * int (s div 10 ^ nat (- e)))
      else None)"
| "jsnum_integer NaN = None"
| "jsnum_integer (Infinite neg) = None"

text \<open>
  \<open>ORDER BY col DESC\<close>: rows with the larger key first; a NULL key sorts before every
  other (\<open>NULLS FIRST\<close> is the default of a descending order); rows with equal keys keep
  their order in the table.
\<close>

definition orderBy_desc :: "('r \<Rightarrow> 'k::linorder) \<Rightarrow> 'r list \<Rightarrow> 'r list" where
  "orderBy_desc key rows = rev (sort_key key (rev rows))"

fun nulls_first :: "nat option \<Rightarrow> enat" where
  "nulls_first None = \<infinity>"
| "nulls_first (Some t) = enat t"

text \<open>
  \<open>serial\<close>: a 4-byte integer column fed by a sequence. \<open>nextval\<close> hands out the value
  after the last one and fails once the column's range is used up.
\<close>

definition nextval :: "nat \<Rightarrow> db_error + nat" where
  "nextval last_value =
     (if last_value + 1 > 2147483647 then Inl SequenceExhausted else Inr (last_value + 1))"

definition int4_ok :: "int \<Rightarrow> bool" where
  "int4_ok i \<longleftrightarrow> - 2147483648 \<le> i \<and> i \<le> 2147483647"

text \<open>
  The id of a row to insert and the sequence's last value afterwards: the caller's id
  if one was given (the sequence is then left alone), the sequence's next value
  otherwise.
\<close>

definition serial_id :: "int option \<Rightarrow> nat \<Rightarrow> db_error + int \<times> nat" where
  "serial_id given last_value =
     (case given of
        Some i \<Rightarrow> if int4_ok i then Inr (i, last_value) else Inl NumericValueOutOfRange
      | None \<Rightarrow>
          (case nextval last_value of Inl e \<Rightarrow> Inl e | Inr v \<Rightarrow> Inr (int v, v)))"

section \<open>Numbers as text\<close>

text \<open>Decimal digits of a natural number, most significant first.\<close>

fun digit_char :: "nat \<Rightarrow> char" where
  "digit_char d = ''0123456789'' ! (d mod 10)"

function digits_of :: "nat \<Rightarrow> string" where
  "digits_of n = (if n < 10 then [digit_char n] else digits_of (n div 10) @ [digit_char n])"
  by pat_completeness auto
termination
  by (relation "measure id") auto

text \<open>The digits \<open>s\<close> and exponent \<open>e\<close> of \<open>s * 10^e\<close> with no trailing zero in \<open>s\<close>.\<close>

function strip_zeros :: "nat \<Rightarrow> int \<Rightarrow> nat \<times> int" where
  "strip_zeros s e =
     (if s \<noteq> 0 \<and> s mod 10 = 0 then strip_zeros (s div 10) (e + 1) else (s, e))"
  by pat_completeness auto
termination
  by (relation "measure fst") auto

text \<open>
  \<open>Number::toString\<close> (radix 10) of the language standard, which \<open>margin.toString()\<close>
  calls: with \<open>k\<close> digits \<open>s\<close> (none trailing zero) and \<open>n\<close> such that the value is
  \<open>s * 10^(n - k)\<close>, the digits are printed plainly for \<open>-6 < n \<le> 21\<close> and in
  exponent form otherwise.
\<close>

definition finite_toString :: "nat \<Rightarrow> int \<Rightarrow> string" where
  "finite_toString s e =
     (let ds = digits_of s; k = int (length ds); n = e + k in
      if k \<le> n \<and> n \<le> 21 then ds @ replicate (nat (n - k)) CHR ''0''
      else if 0 < n \<and> n \<le> 21 then take (nat n) ds @ ''.'' @ drop (nat n) ds
      else if - 6 < n \<and> n \<le> 0 then ''0.'' @ replicate (nat (- n)) CHR ''0'' @ ds
      else
        (if k = 1 then ds else take 1 ds @ ''.'' @ drop 1 ds)
          @ ''e'' @ (if 0 \<le> n - 1 then ''+'' else ''-'') @ digits_of (nat (abs (n - 1))))"

fun Number_toString :: "jsnum \<Rightarrow> string" where
  "Number_toString NaN = ''NaN''"
| "Number_toString (Infinite neg) = (if neg then ''-Infinity'' else ''Infinity'')"
| "Number_toString (Finite neg s e) =
     (if s = 0 then ''0''
      else (if neg then ''-'' else [])
           @ finite_toString (fst (strip_zeros s e)) (snd (strip_zeros s e)))"


section \<open>Decimal columns\<close>

definition digit_val :: "char \<Rightarrow> nat option" where
  "digit_val c = map_of (zip ''0123456789'' [0, 1, 2, 3, 4, 5, 6, 7, 8, 9]) c"

definition is_digit :: "char \<Rightarrow> bool" where
  "is_digit c \<longleftrightarrow> digit_val c \<noteq> None"

definition nat_of_digits :: "string \<Rightarrow> nat" where
  "nat_of_digits ds =
     foldl (\<lambda>a c. 10 * a + (case digit_val c of Some d \<Rightarrow> d | None \<Rightarrow> 0)) 0 ds"

definition is_space :: "char \<Rightarrow> bool" where
  "is_space c \<longleftrightarrow> c \<in> set [CHR '' '', CHR 0x09, CHR 0x0A, CHR 0x0B, CHR 0x0C, CHR 0x0D]"

definition trim :: "string \<Rightarrow> string" where
  "trim s = rev (dropWhile is_space (rev (dropWhile is_space s)))"

text \<open>An optional sign in front of the rest.\<close>

fun split_sign :: "string \<Rightarrow> bool \<times> string" where
  "split_sign [] = (False, [])"
| "split_sign (c # cs) =
     (if c = CHR ''-'' then (True, cs) else if c = CHR ''+'' then (False, cs)
      else (False, c # cs))"

text \<open>Comparison with a word, letter case ignored: the word comes in both cases.\<close>

definition same_word :: "string \<Rightarrow> string \<Rightarrow> string \<Rightarrow> bool" where
  "same_word lower upper s \<longleftrightarrow>
     length s = length lower \<and> list_all2 (\<lambda>c (l, u). c = l \<or> c = u) s (zip lower upper)"

datatype numeric_value = NumericNaN | NumericInfinity bool | Decimal bool nat int

text \<open>
  What the database reads from the text of a \<open>decimal\<close> value:
  [sign] digits [. digits] [e [sign] digits] with a digit before or after the point, or
  one of nan, inf, infinity in any letter case; spaces around it are skipped.
  \<open>Decimal neg m x\<close> is \<open>(-1)^neg * m * 10^x\<close>.
\<close>

fun mantissa_exponent :: "bool \<Rightarrow> string \<Rightarrow> string \<Rightarrow> string \<Rightarrow> numeric_value option" where
  "mantissa_exponent neg int_part frac_part [] =
     Some (Decimal neg (nat_of_digits (int_part @ frac_part)) (- int (length frac_part)))"
| "mantissa_exponent neg int_part frac_part (c # cs) =
     (if (c = CHR ''e'' \<or> c = CHR ''E'')
         \<and> snd (split_sign cs) \<noteq> [] \<and> list_all is_digit (snd (split_sign cs))
      then Some (Decimal neg (nat_of_digits (int_part @ frac_part))
                   ((if fst (split_sign cs) then - 1 else 1)
                      * int (nat_of_digits (snd (split_sign cs)))
                    - int (length frac_part)))
      else None)"

fun fraction :: "bool \<Rightarrow> string \<Rightarrow> string \<Rightarrow> numeric_value option" where
  "fraction neg int_part [] =
     (if int_part = [] then None else mantissa_exponent neg int_part [] [])"
| "fraction neg int_part (c # cs) =
     (if c = CHR ''.'' then
        (if int_part = [] \<and> takeWhile is_digit cs = [] then None
         else mantissa_exponent neg int_part (takeWhile is_digit cs) (dropWhile is_digit cs))
      else if int_part = [] then None
      else mantissa_exponent neg int_part [] (c # cs))"

definition numeric_in :: "string \<Rightarrow> numeric_value option" where
  "numeric_in text =
     (if same_word ''nan'' ''NAN'' (trim text) then Some NumericNaN
      else if same_word ''infinity'' ''INFINITY'' (snd (split_sign (trim text)))
              \<or> same_word ''inf'' ''INF'' (snd (split_sign (trim text)))
        then Some (NumericInfinity (fst (split_sign (trim text))))
      else fraction (fst (split_sign (trim text)))
             (takeWhile is_digit (snd (split_sign (trim text))))
             (dropWhile is_digit (snd (split_sign (trim text)))))"

text \<open>
  The column type \<open>decimal(precision, scale)\<close>: the value is rounded to \<open>scale\<close> places
  after the point, halves away from zero, and must then have at most
  \<open>precision - scale\<close> digits before the point; the column cannot hold an infinity.
  \<open>round_to_scale\<close> is the rounded value in units of \<open>10^(-scale)\<close>, and \<open>numeric_out\<close>
  the text the database returns for it, with all \<open>scale\<close> places.
\<close>

definition round_to_scale :: "nat \<Rightarrow> nat \<Rightarrow> int \<Rightarrow> nat" where
  "round_to_scale scale m x =
     (if 0 \<le> x + int scale then m * 10 ^ nat (x + int scale)
      else m div 10 ^ nat (- (x + int scale))
           + (if 10 ^ nat (- (x + int scale)) \<le> 2 * (m mod 10 ^ nat (- (x + int scale)))
              then 1 else 0))"

definition numeric_out :: "nat \<Rightarrow> bool \<Rightarrow> nat \<Rightarrow> string" where
  "numeric_out scale neg units =
     (if neg \<and> units \<noteq> 0 then ''-'' else [])
     @ digits_of (units div 10 ^ scale)
     @ (if scale = 0 then []
        else ''.'' @ replicate (scale - length (digits_of (units mod 10 ^ scale))) CHR ''0''
             @ digits_of (units mod 10 ^ scale))"

fun apply_typmod :: "nat \<Rightarrow> nat \<Rightarrow> numeric_value \<Rightarrow> db_error + string" where
  "apply_typmod precision scale NumericNaN = Inr ''NaN''"
| "apply_typmod precision scale (NumericInfinity neg) = Inl NumericValueOutOfRange"
| "apply_typmod precision scale (Decimal neg m x) =
     (if 10 ^ precision \<le> round_to_scale scale m x then Inl NumericValueOutOfRange
      else Inr (numeric_out scale neg (round_to_scale scale m x)))"

definition decimal :: "nat \<Rightarrow> nat \<Rightarrow> string \<Rightarrow> db_error + string" where
  "decimal precision scale text =
     (case numeric_in text of
        None \<Rightarrow> Inl InvalidTextRepresentation
      | Some v \<Rightarrow> apply_typmod precision scale v)"

section \<open>The tables (\<open>shared/schema\<close>)\<close>

text \<open>Timestamps are milliseconds since the epoch, as \<open>Date\<close> counts them.\<close>

record User =
  u_id :: string
  u_email :: "string option"
  u_firstName :: "string option"
  u_lastName :: "string option"
  u_profileImageUrl :: "string option"
  u_role :: string
  u_createdAt :: "nat option"
  u_updatedAt :: "nat option"

record Stock =
  st_id :: int
  st_symbol :: string
  st_company :: string
  st_price :: string
  st_change :: string
  st_changePercent :: string
  st_volume :: string
  st_marketCap :: "string option"
  st_peRatio :: "string option"
  st_high52 :: "string option"
  st_low52 :: "string option"
  st_updatedAt :: "nat option"

record CurrencyPair =
  cp_id :: int
  cp_symbol :: string
  cp_base :: string
  cp_quote :: string
  cp_rate :: string
  cp_change :: string
  cp_changePercent :: string
  cp_margin :: string
  cp_updatedAt :: "nat option"

record NewsArticle =
  na_id :: int
  na_title :: string
  na_summary :: string
  na_content :: "string option"
  na_source :: string
  na_imageUrl :: "string option"
  na_publishedAt :: nat
  na_createdAt :: "nat option"

record UserFavorite =
  uf_id :: int
  uf_userId :: string
  uf_itemType :: string
  uf_itemId :: string
  uf_createdAt :: "nat option"

record MarketIndex =
  mi_id :: int
  mi_name :: string
  mi_symbol :: string
  mi_value :: string
  mi_change :: string
  mi_changePercent :: string
  mi_updatedAt :: "nat option"

text \<open>
  The database behind \<open>db\<close>: one row list per table, the last value of each \<open>serial\<close>
  sequence the modelled operations draw from, and whether the backend can be reached.
\<close>

record database =
  reachable :: bool
  users :: "User list"
  stocks :: "Stock list"
  stocks_id_seq :: nat
  currencyPairs :: "CurrencyPair list"
  currency_pairs_id_seq :: nat
  newsArticles :: "NewsArticle list"
  userFavorites :: "UserFavorite list"
  user_favorites_id_seq :: nat
  marketIndices :: "MarketIndex list"
  market_indices_id_seq :: nat

section \<open>Users\<close>


section \<open>News\<close>

text \<open>
  \<open>getNewsArticles(limit: number = 20)\<close>: the argument is \<open>None\<close> when the caller
  passes none. The row count of \<open>LIMIT\<close> is an 8-byte integer that must not be negative;
  the driver hands the number over as text, and the database rejects whatever is not a
  whole number of that range.
\<close>

definition getNewsArticles :: "jsnum option \<Rightarrow> database \<Rightarrow> db_error + NewsArticle list" where
  "getNewsArticles limit_arg db =
     (let limit = (case limit_arg of None \<Rightarrow> Finite False 20 0 | Some n \<Rightarrow> n) in
      if \<not> reachable db then Inl StorageUnavailable
      else case jsnum_integer limit of
             None \<Rightarrow> Inl InvalidTextRepresentation
           | Some k \<Rightarrow>
               if k > 9223372036854775807 then Inl NumericValueOutOfRange
               else if k < 0 then Inl InvalidRowCount
               else Inr (take (nat k) (orderBy_desc na_publishedAt (newsArticles db))))"





section \<open>Favorites\<close>

text \<open>
  \<open>InsertUserFavorite\<close>: \<open>id\<close> may be left out (the sequence then supplies it); the
  \<open>createdAt\<close> of the argument is overwritten by \<open>createdAt: new Date()\<close> and is not
  modelled.
\<close>

record InsertUserFavorite =
  iuf_id :: "int option"
  iuf_userId :: string
  iuf_itemType :: string
  iuf_itemId :: string


text \<open>
  \<open>INSERT INTO user_favorites ... RETURNING *\<close>. The row takes its id from the sequence
  unless the caller gave one; a value drawn from the sequence stays drawn when the insert
  then fails. The insert fails on an id already in the table (primary key) and on a
  \<open>userId\<close> that is no user's id (foreign key).
\<close>

definition addUserFavorite ::
  "nat \<Rightarrow> InsertUserFavorite \<Rightarrow> database \<Rightarrow> (db_error + UserFavorite) \<times> database" where
  "addUserFavorite now favorite db =
     (if \<not> reachable db then (Inl StorageUnavailable, db)
      else
        case serial_id (iuf_id favorite) (user_favorites_id_seq db) of
          Inl e \<Rightarrow> (Inl e, db)
        | Inr (new_id, last_value) \<Rightarrow>
            let db1 = db\<lparr>user_favorites_id_seq := last_value\<rparr>;
                row = \<lparr>uf_id = new_id, uf_userId = iuf_userId favorite,
                       uf_itemType = iuf_itemType favorite, uf_itemId = iuf_itemId favorite,
                       uf_createdAt = Some now\<rparr>
            in if new_id \<in> uf_id ` set (userFavorites db) then (Inl UniqueViolation, db1)
               else if iuf_userId favorite \<notin> u_id ` set (users db)
                 then (Inl ForeignKeyViolation, db1)
               else (Inr row, db1\<lparr>userFavorites := userFavorites db @ [row]\<rparr>))"

text \<open>
  \<open>DELETE FROM user_favorites WHERE user_id = $1 AND item_type = $2 AND item_id = $3\<close>
\<close>

definition favorite_matches :: "string \<Rightarrow> string \<Rightarrow> string \<Rightarrow> UserFavorite \<Rightarrow> bool" where
  "favorite_matches userId itemType itemId r \<longleftrightarrow>
     uf_userId r = userId \<and> uf_itemType r = itemType \<and> uf_itemId r = itemId"

definition removeUserFavorite ::
  "string \<Rightarrow> string \<Rightarrow> string \<Rightarrow> database \<Rightarrow> (db_error + unit) \<times> database" where
  "removeUserFavorite userId itemType itemId db =
     (if \<not> reachable db then (Inl StorageUnavailable, db)
      else (Inr (),
            db\<lparr>userFavorites :=
                 filter (\<lambda>r. \<not> favorite_matches userId itemType itemId r) (userFavorites db)\<rparr>))"


section \<open>Insert with \<open>onConflictDoUpdate\<close>\<close>

text \<open>Running one step after another, stopping at the first failure.\<close>

fun and_then :: "'e + 'a \<Rightarrow> ('a \<Rightarrow> 'e + 'b) \<Rightarrow> 'e + 'b" where
  "and_then (Inl e) f = Inl e"
| "and_then (Inr x) f = f x"

text \<open>
  \<open>INSERT ... ON CONFLICT (target) DO UPDATE SET ...\<close> on the rows of one table.
  \<open>on_target r\<close>: row \<open>r\<close> has the proposed row's value in the target column.
  \<open>clashes a b\<close>: rows \<open>a\<close> and \<open>b\<close> agree on one of the table's other unique
  columns. With no row on the target the proposed row is appended, unless it clashes
  with a row; otherwise the row on the target is updated in place, unless the updated
  row clashes with another row. A clash is a uniqueness violation: the statement fails
  and the table stays as it was.
\<close>

definition insert_on_conflict_do_update ::
  "('r \<Rightarrow> bool) \<Rightarrow> ('r \<Rightarrow> 'r \<Rightarrow> bool) \<Rightarrow> 'r \<Rightarrow> ('r \<Rightarrow> 'r) \<Rightarrow> 'r list
     \<Rightarrow> db_error + 'r \<times> 'r list" where
  "insert_on_conflict_do_update on_target clashes proposed do_update rows =
     (case filter on_target rows of
        [] \<Rightarrow>
          if list_ex (clashes proposed) rows then Inl UniqueViolation
          else Inr (proposed, rows @ [proposed])
      | existing # _ \<Rightarrow>
          if list_ex (clashes (do_update existing)) (filter (\<lambda>r. \<not> on_target r) rows)
          then Inl UniqueViolation
          else Inr (do_update existing,
                    map (\<lambda>r. if on_target r then do_update r else r) rows))"

section \<open>Currency pairs\<close>

text \<open>
  \<open>InsertCurrencyPair\<close>: \<open>id\<close> and \<open>margin\<close> may be left out; the \<open>updatedAt\<close> of the
  argument is overwritten by \<open>updatedAt: new Date()\<close> and is not modelled.
\<close>

record InsertCurrencyPair =
  icp_id :: "int option"
  icp_symbol :: string
  icp_base :: string
  icp_quote :: string
  icp_rate :: string
  icp_change :: string
  icp_changePercent :: string
  icp_margin :: "string option"

definition getCurrencyPairs :: "database \<Rightarrow> db_error + CurrencyPair list" where
  "getCurrencyPairs db =
     (if \<not> reachable db then Inl StorageUnavailable
      else Inr (orderBy_desc (\<lambda>r. nulls_first (cp_updatedAt r)) (currencyPairs db)))"

definition getCurrencyPairBySymbol :: "string \<Rightarrow> database \<Rightarrow> db_error + CurrencyPair option" where
  "getCurrencyPairBySymbol symbol db =
     (if \<not> reachable db then Inl StorageUnavailable
      else Inr (case filter (\<lambda>r. cp_symbol r = symbol) (currencyPairs db) of
                  [] \<Rightarrow> None | pair # _ \<Rightarrow> Some pair))"

text \<open>The values of the argument as the columns of \<open>currency_pairs\<close> take them.\<close>

definition currency_pair_columns :: "InsertCurrencyPair \<Rightarrow> db_error + InsertCurrencyPair" where
  "currency_pair_columns pair =
     and_then (decimal 10 6 (icp_rate pair)) (\<lambda>rate.
     and_then (decimal 8 6 (icp_change pair)) (\<lambda>change.
     and_then (decimal 5 2 (icp_changePercent pair)) (\<lambda>changePercent.
     and_then (case icp_margin pair of
                 None \<Rightarrow> Inr None
               | Some m \<Rightarrow> and_then (decimal 5 2 m) (\<lambda>margin. Inr (Some margin))) (\<lambda>margin.
     Inr (pair\<lparr>icp_rate := rate, icp_change := change,
               icp_changePercent := changePercent, icp_margin := margin\<rparr>)))))"

text \<open>
  \<open>upsertCurrencyPair\<close>: \<open>values_now\<close> and \<open>set_now\<close> are the two readings of the clock,
  \<open>new Date()\<close> in \<open>.values\<close> and in \<open>set\<close>. A key the argument leaves out is not part
  of \<open>set\<close>; on insert the column default fills it (\<open>margin\<close>: 0.25).
\<close>

definition upsertCurrencyPair ::
  "nat \<Rightarrow> nat \<Rightarrow> InsertCurrencyPair \<Rightarrow> database \<Rightarrow> (db_error + CurrencyPair) \<times> database" where
  "upsertCurrencyPair values_now set_now pair db =
     (if \<not> reachable db then (Inl StorageUnavailable, db)
      else
        case currency_pair_columns pair of
          Inl e \<Rightarrow> (Inl e, db)
        | Inr p \<Rightarrow>
           (case serial_id (icp_id p) (currency_pairs_id_seq db) of
              Inl e \<Rightarrow> (Inl e, db)
            | Inr (new_id, last_value) \<Rightarrow>
               (case insert_on_conflict_do_update
                       (\<lambda>r. cp_symbol r = icp_symbol p)
                       (\<lambda>a b. cp_id a = cp_id b)
                       \<lparr>cp_id = new_id, cp_symbol = icp_symbol p, cp_base = icp_base p,
                        cp_quote = icp_quote p, cp_rate = icp_rate p,
                        cp_change = icp_change p, cp_changePercent = icp_changePercent p,
                        cp_margin = (case icp_margin p of None \<Rightarrow> ''0.25'' | Some m \<Rightarrow> m),
                        cp_updatedAt = Some values_now\<rparr>
                       (\<lambda>old. old\<lparr>cp_id := (case icp_id p of None \<Rightarrow> cp_id old | Some i \<Rightarrow> i),
                                   cp_symbol := icp_symbol p, cp_base := icp_base p,
                                   cp_quote := icp_quote p, cp_rate := icp_rate p,
                                   cp_change := icp_change p,
                                   cp_changePercent := icp_changePercent p,
                                   cp_margin :=
                                     (case icp_margin p of None \<Rightarrow> cp_margin old | Some m \<Rightarrow> m),
                                   cp_updatedAt := Some set_now\<rparr>)
                       (currencyPairs db) of
                  Inl e \<Rightarrow> (Inl e, db\<lparr>currency_pairs_id_seq := last_value\<rparr>)
                | Inr (row, rows) \<Rightarrow>
                    (Inr row, db\<lparr>currency_pairs_id_seq := last_value,
                                  currencyPairs := rows\<rparr>))))"

text \<open>
  \<open>UPDATE currency_pairs SET margin = $1, updated_at = $2 WHERE symbol = $3\<close> with
  \<open>$1 = margin.toString()\<close>. The text is made a \<open>decimal(5, 2)\<close> when the statement is
  prepared with its parameters, before any row is looked at.
\<close>

definition updateCurrencyMargin ::
  "nat \<Rightarrow> string \<Rightarrow> jsnum \<Rightarrow> database \<Rightarrow> (db_error + unit) \<times> database" where
  "updateCurrencyMargin now symbol margin db =
     (if \<not> reachable db then (Inl StorageUnavailable, db)
      else
        case decimal 5 2 (Number_toString margin) of
          Inl e \<Rightarrow> (Inl e, db)
        | Inr m \<Rightarrow>
            (Inr (),
             db\<lparr>currencyPairs :=
                  map (\<lambda>r. if cp_symbol r = symbol
                            then r\<lparr>cp_margin := m, cp_updatedAt := Some now\<rparr> else r)
                      (currencyPairs db)\<rparr>))"

text \<open>The first entry of \<open>sampleCurrencies\<close> in \<open>initializeSampleData\<close>.\<close>

definition eur_usd :: InsertCurrencyPair where
  "eur_usd =
     \<lparr>icp_id = None, icp_symbol = ''EUR/USD'', icp_base = ''EUR'', icp_quote = ''USD'',
      icp_rate = ''1.084200'', icp_change = ''0.001300'', icp_changePercent = ''0.12'',
      icp_margin = Some ''0.25''\<rparr>"

section \<open>\<open>PUT /api/currencies/:symbol/margin\<close>\<close>

text \<open>
  What \<open>req.body.margin\<close> can be after the JSON body parser; \<open>JObject\<close> stands for any
  array or object. \<open>typeof margin\<close> is \<open>'number'\<close> for \<open>JNumber\<close> alone.
\<close>

datatype jsvalue = JUndefined | JNull | JBoolean bool | JNumber jsnum | JString string | JObject




section \<open>Stocks\<close>


definition getStocks :: "database \<Rightarrow> db_error + Stock list" where
  "getStocks db =
     (if \<not> reachable db then Inl StorageUnavailable
      else Inr (orderBy_desc (\<lambda>r. nulls_first (st_updatedAt r)) (stocks db)))"








section \<open>Market indices\<close>


definition getMarketIndices :: "database \<Rightarrow> db_error + MarketIndex list" where
  "getMarketIndices db =
     (if \<not> reachable db then Inl StorageUnavailable
      else Inr (orderBy_desc (\<lambda>r. nulls_first (mi_updatedAt r)) (marketIndices db)))"






section \<open>The push channel (\<open>wss.on('connection', ...)\<close>)\<close>

datatype readyState = CONNECTING | OPEN | CLOSING | CLOSED

text \<open>The \<open>data\<close> of a \<open>market_update\<close> message.\<close>

record market_update =
  mu_stocks :: "Stock list"
  mu_currencies :: "CurrencyPair list"
  mu_indices :: "MarketIndex list"
  mu_news :: "NewsArticle list"
  mu_timestamp :: nat

datatype console_line =
    NewWebSocketConnection
  | ErrorSendingMarketUpdate
  | WebSocketConnectionClosed
  | WebSocketError

text \<open>
  \<open>Promise.all\<close> of the four reads. They run side by side, so each may see a state of
  its own: \<open>db1\<close> to \<open>db4\<close>. The promise rejects as soon as one read rejects.
\<close>

definition snapshot ::
  "database \<Rightarrow> database \<Rightarrow> database \<Rightarrow> database
     \<Rightarrow> db_error + Stock list \<times> CurrencyPair list \<times> MarketIndex list \<times> NewsArticle list" where
  "snapshot db1 db2 db3 db4 =
     and_then (getStocks db1) (\<lambda>stocks_read.
     and_then (getCurrencyPairs db2) (\<lambda>currencies_read.
     and_then (getMarketIndices db3) (\<lambda>indices_read.
     and_then (getNewsArticles (Some (Finite False 10 0)) db4) (\<lambda>news_read.
     Inr (stocks_read, currencies_read, indices_read, news_read)))))"

text \<open>
  \<open>sendMarketUpdate\<close> from the point where the reads have settled: \<open>ready\<close> is
  \<open>ws.readyState\<close> and \<open>now\<close> the clock at that moment. The result is what is sent on
  the socket and what is written to the console.
\<close>

definition sendMarketUpdate ::
  "database \<Rightarrow> database \<Rightarrow> database \<Rightarrow> database \<Rightarrow> readyState \<Rightarrow> nat
     \<Rightarrow> market_update list \<times> console_line list" where
  "sendMarketUpdate db1 db2 db3 db4 ready now =
     (case snapshot db1 db2 db3 db4 of
        Inr (stocks_read, currencies_read, indices_read, news_read) \<Rightarrow>
          if ready = OPEN
          then ([\<lparr>mu_stocks = stocks_read, mu_currencies = currencies_read,
                  mu_indices = indices_read, mu_news = news_read, mu_timestamp = now\<rparr>], [])
          else ([], [])
      | Inl error \<Rightarrow> ([], [ErrorSendingMarketUpdate]))"

text \<open>
  One connection: the socket's \<open>readyState\<close>; \<open>updateInterval\<close>, the period of the
  interval timer while it is set and \<open>None\<close> once cleared; the number of calls of
  \<open>sendMarketUpdate\<close> whose reads are still out; the number of snapshot assemblies begun;
  the messages sent and the console lines written for it.
\<close>

record connection =
  readyState :: readyState
  updateInterval :: "nat option"
  pending :: nat
  assembled :: nat
  sent :: "market_update list"
  console :: "console_line list"

type_synonym server = "nat \<Rightarrow> connection option"

text \<open>
  What the event loop delivers, one at a time: a new connection; the interval of a
  connection elapsing; the reads of one pending \<open>sendMarketUpdate\<close> settling, with the
  states they saw and the clock; the socket changing state by itself; the socket's
  \<open>close\<close> and \<open>error\<close> events.
\<close>

datatype event =
    Connection nat
  | IntervalElapsed nat
  | ReadsSettled nat database database database database nat
  | TransportState nat readyState
  | Close nat
  | Error nat

text \<open>The synchronous part of \<open>sendMarketUpdate\<close>: the four reads are issued.\<close>

definition sendMarketUpdate_called :: "connection \<Rightarrow> connection" where
  "sendMarketUpdate_called conn =
     conn\<lparr>pending := pending conn + 1, assembled := assembled conn + 1\<rparr>"

text \<open>
  The body of \<open>wss.on('connection', (ws) => ...)\<close>: the log line, the first call of
  \<open>sendMarketUpdate\<close>, and \<open>setInterval(sendMarketUpdate, 4000)\<close>.
\<close>

definition on_connection :: connection where
  "on_connection =
     (sendMarketUpdate_called
        \<lparr>readyState = OPEN, updateInterval = None, pending = 0, assembled = 0, sent = [],
         console = [NewWebSocketConnection]\<rparr>)
     \<lparr>updateInterval := Some 4000\<rparr>"

text \<open>\<open>ws.on('close', ...)\<close> and \<open>ws.on('error', ...)\<close>: a log line, then \<open>clearInterval\<close>.\<close>

definition on_close :: "connection \<Rightarrow> connection" where
  "on_close conn =
     conn\<lparr>console := console conn @ [WebSocketConnectionClosed], updateInterval := None\<rparr>"

definition on_error :: "connection \<Rightarrow> connection" where
  "on_error conn =
     conn\<lparr>console := console conn @ [WebSocketError], updateInterval := None\<rparr>"

text \<open>The socket's states in the order it passes through them; it never goes back.\<close>

fun stage :: "readyState \<Rightarrow> nat" where
  "stage CONNECTING = 0"
| "stage OPEN = 1"
| "stage CLOSING = 2"
| "stage CLOSED = 3"

text \<open>
  One turn of the event loop. The runtime calls the interval's callback only while the
  interval is set. The socket library has \<open>readyState\<close> at \<open>CLOSED\<close> when it emits
  \<open>close\<close> and past \<open>OPEN\<close> when it emits \<open>error\<close>. An event for a connection that does
  not exist, a second \<open>connection\<close> event for one that does, and settled reads where none
  are out do not occur; the step leaves the server as it is.
\<close>

fun step :: "event \<Rightarrow> server \<Rightarrow> server" where
  "step (Connection c) s =
     (case s c of None \<Rightarrow> s(c \<mapsto> on_connection) | Some conn \<Rightarrow> s)"
| "step (IntervalElapsed c) s =
     (case s c of
        None \<Rightarrow> s
      | Some conn \<Rightarrow>
          if updateInterval conn \<noteq> None then s(c \<mapsto> sendMarketUpdate_called conn) else s)"
| "step (ReadsSettled c db1 db2 db3 db4 now) s =
     (case s c of
        None \<Rightarrow> s
      | Some conn \<Rightarrow>
          if pending conn = 0 then s
          else s(c \<mapsto> conn\<lparr>pending := pending conn - 1,
                     sent := sent conn
                       @ fst (sendMarketUpdate db1 db2 db3 db4 (readyState conn) now),
                     console := console conn
                       @ snd (sendMarketUpdate db1 db2 db3 db4 (readyState conn) now)\<rparr>))"
| "step (TransportState c ready) s =
     (case s c of
        None \<Rightarrow> s
      | Some conn \<Rightarrow>
          if stage (readyState conn) \<le> stage ready then s(c \<mapsto> conn\<lparr>readyState := ready\<rparr>)
          else s)"
| "step (Close c) s =
     (case s c of
        None \<Rightarrow> s
      | Some conn \<Rightarrow> s(c \<mapsto> on_close (conn\<lparr>readyState := CLOSED\<rparr>)))"
| "step (Error c) s =
     (case s c of
        None \<Rightarrow> s
      | Some conn \<Rightarrow>
          s(c \<mapsto> on_error (conn\<lparr>readyState :=
                       (if stage (readyState conn) < 2 then CLOSING else readyState conn)\<rparr>)))"

text \<open>Events one after the other.\<close>

fun run :: "event list \<Rightarrow> server \<Rightarrow> server" where
  "run [] s = s"
| "run (e # es) s = run es (step e s)"

text \<open>
  A connection \<open>later\<close> that, compared with \<open>conn\<close>, has its timer cleared and its socket
  past \<open>OPEN\<close>, and has neither sent nor assembled anything more.
\<close>

definition silent :: "connection \<Rightarrow> connection \<Rightarrow> bool" where
  "silent conn later \<longleftrightarrow>
     updateInterval later = None \<and> 2 \<le> stage (readyState later)
     \<and> sent later = sent conn \<and> assembled later = assembled conn"

section \<open>Sample states\<close>

definition empty_database :: database where
  "empty_database =
     \<lparr>reachable = True, users = [], stocks = [], stocks_id_seq = 0,
      currencyPairs = [], currency_pairs_id_seq = 0, newsArticles = [],
      userFavorites = [], user_favorites_id_seq = 0,
      marketIndices = [], market_indices_id_seq = 0\<rparr>"

definition sample_user :: "string \<Rightarrow> string \<Rightarrow> User" where
  "sample_user ident role =
     \<lparr>u_id = ident, u_email = None, u_firstName = None, u_lastName = None,
      u_profileImageUrl = None, u_role = role, u_createdAt = None, u_updatedAt = None\<rparr>"

definition sample_article :: "int \<Rightarrow> nat \<Rightarrow> NewsArticle" where
  "sample_article ident published =
     \<lparr>na_id = ident, na_title = ''t'', na_summary = ''s'', na_content = None,
      na_source = ''Reuters'', na_imageUrl = None, na_publishedAt = published,
      na_createdAt = None\<rparr>"

definition news_database :: database where
  "news_database =
     empty_database\<lparr>newsArticles :=
       [sample_article 1 40, sample_article 2 80, sample_article 3 60]\<rparr>"



text \<open>
  An administrator \<open>a1\<close>, a user \<open>u1\<close>, and the pair EUR/USD seeded as
  \<open>initializeSampleData\<close> seeds it.
\<close>

definition currency_database :: database where
  "currency_database =
     snd (upsertCurrencyPair 1000 1000 eur_usd
            (empty_database\<lparr>users := [sample_user ''a1'' ''admin'', sample_user ''u1'' ''user'']\<rparr>))"

definition eur_usd_row :: CurrencyPair where
  "eur_usd_row =
     \<lparr>cp_id = 1, cp_symbol = ''EUR/USD'', cp_base = ''EUR'', cp_quote = ''USD'',
      cp_rate = ''1.084200'', cp_change = ''0.001300'', cp_changePercent = ''0.12'',
      cp_margin = ''0.25'', cp_updatedAt = Some 1000\<rparr>"


definition aapl_row :: Stock where
  "aapl_row =
     \<lparr>st_id = 1, st_symbol = ''AAPL'', st_company = ''Apple Inc.'', st_price = ''175.43'',
      st_change = ''3.64'', st_changePercent = ''2.10'', st_volume = ''47.2M'',
      st_marketCap = Some ''$2.75T'', st_peRatio = Some ''28.50'',
      st_high52 = Some ''199.62'', st_low52 = Some ''124.17'', st_updatedAt = Some 1000\<rparr>"

definition stocks_database :: database where
  "stocks_database = empty_database\<lparr>stocks_id_seq := 1, stocks := [aapl_row]\<rparr>"







definition spx_row :: MarketIndex where
  "spx_row =
     \<lparr>mi_id = 1, mi_name = ''S&P 500'', mi_symbol = ''SPX'', mi_value = ''4547.38'',
      mi_change = ''54.23'', mi_changePercent = ''1.20'', mi_updatedAt = Some 1000\<rparr>"

definition indices_database :: database where
  "indices_database =
     empty_database\<lparr>market_indices_id_seq := 1, marketIndices := [spx_row]\<rparr>"






text \<open>
  A snapshot message of the sample states, and a server with the two connections 2 and
  3, of which connection 2 has had one more tick.
\<close>

definition sample_update :: market_update where
  "sample_update =
     \<lparr>mu_stocks = [aapl_row], mu_currencies = [eur_usd_row], mu_indices = [spx_row],
      mu_news = [sample_article 2 80, sample_article 3 60, sample_article 1 40],
      mu_timestamp = 5000\<rparr>"

definition two_connections :: server where
  "two_connections = run [Connection 2, Connection 3, IntervalElapsed 2] (\<lambda>c. None)"

section \<open>Ordering\<close>

lemma orderBy_desc_sorted:
  "sorted_wrt (\<lambda>a b. key b \<le> key a) (orderBy_desc key rows)"
proof -
  have "sorted (map key (sort_key key (rev rows)))" by (rule sorted_sort_key)
  then have "sorted_wrt (\<lambda>a b. key a \<le> key b) (sort_key key (rev rows))"
    by (simp add: sorted_map)
  then show ?thesis
    by (simp add: orderBy_desc_def sorted_wrt_rev)
qed

lemma length_orderBy_desc [simp]: "length (orderBy_desc key rows) = length rows"
  by (simp add: orderBy_desc_def)

lemma set_orderBy_desc [simp]: "set (orderBy_desc key rows) = set rows"
  by (simp add: orderBy_desc_def)

section \<open>Evaluating numbers as text\<close>

lemma replicate_numeral: "replicate (numeral k) x = x # replicate (pred_numeral k) x"
  by (simp add: numeral_eq_Suc)

lemmas numeric_in_simps = numeric_in_def trim_def is_space_def same_word_def is_digit_def
  digit_val_def nat_of_digits_def
lemmas decimal_simps = decimal_def numeric_in_simps round_to_scale_def numeric_out_def
  replicate_numeral
lemmas toString_simps = finite_toString_def replicate_numeral

lemma decimal_5_2_half: "decimal 5 2 (Number_toString (Finite False 5 (- 1))) = Inr ''0.50''"
  by (simp add: toString_simps decimal_simps)


section \<open>News retrieval\<close>

lemma getNewsArticles_Inr:
  assumes "getNewsArticles (Some N) db = Inr rows"
  shows "\<exists>k. jsnum_integer N = Some k \<and> 0 \<le> k
           \<and> rows = take (nat k) (orderBy_desc na_publishedAt (newsArticles db))"
  using assms by (auto simp: getNewsArticles_def split: if_splits option.splits)




section \<open>Favorites\<close>


lemma addUserFavorite_reachable [simp]:
  "reachable (snd (addUserFavorite now favorite db)) = reachable db"
proof (cases "serial_id (iuf_id favorite) (user_favorites_id_seq db)")
  case (Inl e)
  then show ?thesis by (simp add: addUserFavorite_def)
next
  case (Inr p)
  then show ?thesis by (cases p) (simp add: addUserFavorite_def Let_def)
qed



lemma removeUserFavorite_reachable [simp]:
  "reachable (snd (removeUserFavorite u t i db)) = reachable db"
  by (simp add: removeUserFavorite_def)











section \<open>Currency pairs\<close>

lemma eur_usd_columns: "currency_pair_columns eur_usd = Inr eur_usd"
  by (simp add: currency_pair_columns_def eur_usd_def decimal_simps)

lemma eur_usd_fields:
  "icp_id eur_usd = None" "icp_symbol eur_usd = ''EUR/USD''" "icp_base eur_usd = ''EUR''"
  "icp_quote eur_usd = ''USD''" "icp_rate eur_usd = ''1.084200''"
  "icp_change eur_usd = ''0.001300''" "icp_changePercent eur_usd = ''0.12''"
  "icp_margin eur_usd = Some ''0.25''"
  by (simp_all add: eur_usd_def)

lemma currency_database_eq:
  "currency_database =
     empty_database\<lparr>users := [sample_user ''a1'' ''admin'', sample_user ''u1'' ''user''],
       currency_pairs_id_seq := 1, currencyPairs := [eur_usd_row]\<rparr>"
  by (simp add: currency_database_def upsertCurrencyPair_def eur_usd_columns eur_usd_fields
      insert_on_conflict_do_update_def serial_id_def nextval_def empty_database_def
      eur_usd_row_def)

lemma insert_on_conflict_do_update_target:
  assumes res: "insert_on_conflict_do_update T C p u rows = Inr (row, rows')"
    and "T p" and "\<And>old. T (u old)" and "P p" and "\<And>old. P (u old)"
  shows "filter T rows' \<noteq> [] \<and> (\<forall>r \<in> set rows'. T r \<longrightarrow> P r)"
proof (cases "filter T rows")
  case Nil
  with res have rows': "rows' = rows @ [p]"
    by (auto simp: insert_on_conflict_do_update_def split: if_splits)
  from Nil have "\<forall>r \<in> set rows. \<not> T r"
    by (simp add: filter_empty_conv)
  with rows' assms(2,4) show ?thesis by auto
next
  case (Cons existing rest)
  with res have rows': "rows' = map (\<lambda>r. if T r then u r else r) rows"
    by (auto simp: insert_on_conflict_do_update_def split: if_splits)
  from Cons have "existing \<in> set (filter T rows)" by simp
  then have ex: "existing \<in> set rows" "T existing" by simp_all
  then have "u existing \<in> set rows'" unfolding rows' by force
  with assms(3) have "filter T rows' \<noteq> []"
    by (auto simp: filter_empty_conv)
  moreover have "\<forall>r \<in> set rows'. T r \<longrightarrow> P r"
    unfolding rows' using assms(5) by auto
  ultimately show ?thesis by simp
qed

lemma upsertCurrencyPair_Inr:
  assumes "upsertCurrencyPair t1 t2 pair db = (Inr row, db1)"
  shows "\<exists>p new_id last_value.
           reachable db \<and> currency_pair_columns pair = Inr p
           \<and> reachable db1
           \<and> insert_on_conflict_do_update
                 (\<lambda>r. cp_symbol r = icp_symbol p)
                 (\<lambda>a b. cp_id a = cp_id b)
                 \<lparr>cp_id = new_id, cp_symbol = icp_symbol p, cp_base = icp_base p,
                  cp_quote = icp_quote p, cp_rate = icp_rate p,
                  cp_change = icp_change p, cp_changePercent = icp_changePercent p,
                  cp_margin = (case icp_margin p of None \<Rightarrow> ''0.25'' | Some m \<Rightarrow> m),
                  cp_updatedAt = Some t1\<rparr>
                 (\<lambda>old. old\<lparr>cp_id := (case icp_id p of None \<Rightarrow> cp_id old | Some i \<Rightarrow> i),
                             cp_symbol := icp_symbol p, cp_base := icp_base p,
                             cp_quote := icp_quote p, cp_rate := icp_rate p,
                             cp_change := icp_change p,
                             cp_changePercent := icp_changePercent p,
                             cp_margin :=
                               (case icp_margin p of None \<Rightarrow> cp_margin old | Some m \<Rightarrow> m),
                             cp_updatedAt := Some t2\<rparr>)
                 (currencyPairs db) = Inr (row, currencyPairs db1)"
proof -
  from assms have r: "reachable db"
    by (auto simp: upsertCurrencyPair_def split: if_splits)
  from assms r obtain p where p: "currency_pair_columns pair = Inr p"
    by (cases "currency_pair_columns pair") (auto simp: upsertCurrencyPair_def)
  from assms r p obtain new_id last_value
    where s: "serial_id (icp_id p) (currency_pairs_id_seq db) = Inr (new_id, last_value)"
    by (cases "serial_id (icp_id p) (currency_pairs_id_seq db)")
       (auto simp: upsertCurrencyPair_def)
  from assms r p s show ?thesis
    by (auto simp: upsertCurrencyPair_def split: sum.splits)
qed

lemma eur_usd_seeded:
  assumes "upsertCurrencyPair t1 t2 eur_usd db = (Inr seeded, db1)"
  shows "reachable db1"
    and "filter (\<lambda>r. cp_symbol r = ''EUR/USD'') (currencyPairs db1) \<noteq> []"
    and "\<forall>r \<in> set (currencyPairs db1). cp_symbol r = ''EUR/USD'' \<longrightarrow>
           cp_rate r = ''1.084200'' \<and> cp_margin r = ''0.25''"
    and "cp_rate seeded = ''1.084200''" and "cp_margin seeded = ''0.25''"
proof -
  from upsertCurrencyPair_Inr [OF assms] obtain new_id
    where r: "reachable db1"
      and i: "insert_on_conflict_do_update
                 (\<lambda>r. cp_symbol r = ''EUR/USD'')
                 (\<lambda>a b. cp_id a = cp_id b)
                 \<lparr>cp_id = new_id, cp_symbol = ''EUR/USD'', cp_base = ''EUR'',
                  cp_quote = ''USD'', cp_rate = ''1.084200'',
                  cp_change = ''0.001300'', cp_changePercent = ''0.12'',
                  cp_margin = ''0.25'', cp_updatedAt = Some t1\<rparr>
                 (\<lambda>old. old\<lparr>cp_id := cp_id old,
                             cp_symbol := ''EUR/USD'', cp_base := ''EUR'',
                             cp_quote := ''USD'', cp_rate := ''1.084200'',
                             cp_change := ''0.001300'',
                             cp_changePercent := ''0.12'',
                             cp_margin := ''0.25'',
                             cp_updatedAt := Some t2\<rparr>)
                 (currencyPairs db) = Inr (seeded, currencyPairs db1)"
    by (auto simp: eur_usd_columns eur_usd_fields)
  show "reachable db1" by (rule r)
  from insert_on_conflict_do_update_target
    [OF i, where P = "\<lambda>r. cp_rate r = ''1.084200'' \<and> cp_margin r = ''0.25''"]
  show "filter (\<lambda>r. cp_symbol r = ''EUR/USD'') (currencyPairs db1) \<noteq> []"
    and "\<forall>r \<in> set (currencyPairs db1). cp_symbol r = ''EUR/USD'' \<longrightarrow>
           cp_rate r = ''1.084200'' \<and> cp_margin r = ''0.25''"
    by simp_all
  from i show "cp_rate seeded = ''1.084200''" and "cp_margin seeded = ''0.25''"
    by (auto simp: insert_on_conflict_do_update_def split: list.splits if_splits)
qed

text \<open>
  C9. Once \<open>upsertCurrencyPair\<close> has seeded EUR/USD as \<open>initializeSampleData\<close> does
  (margin 0.25), \<open>updateCurrencyMargin("EUR/USD", 0.50)\<close> succeeds and
  \<open>getCurrencyPairBySymbol("EUR/USD")\<close> then returns the margin \<open>"0.50"\<close>, with the
  rate as seeded.
\<close>

theorem updateCurrencyMargin_eur_usd:
  assumes "upsertCurrencyPair t1 t2 eur_usd db = (Inr seeded, db1)"
  shows "cp_margin seeded = ''0.25''
     \<and> fst (updateCurrencyMargin t3 ''EUR/USD'' (Finite False 5 (- 1)) db1) = Inr ()
     \<and> (\<exists>pair. getCurrencyPairBySymbol ''EUR/USD''
                    (snd (updateCurrencyMargin t3 ''EUR/USD'' (Finite False 5 (- 1)) db1))
                  = Inr (Some pair)
               \<and> cp_margin pair = ''0.50'' \<and> cp_rate pair = cp_rate seeded)"
proof -
  note s = eur_usd_seeded [OF assms]
  let ?f = "\<lambda>r. if cp_symbol r = ''EUR/USD''
                then r\<lparr>cp_margin := ''0.50'', cp_updatedAt := Some t3\<rparr> else r"
  have u: "updateCurrencyMargin t3 ''EUR/USD'' (Finite False 5 (- 1)) db1
        = (Inr (), db1\<lparr>currencyPairs := map ?f (currencyPairs db1)\<rparr>)"
    using s(1) by (simp add: updateCurrencyMargin_def decimal_5_2_half del: Number_toString.simps)
  from s(2) obtain first rest
    where f: "filter (\<lambda>r. cp_symbol r = ''EUR/USD'') (currencyPairs db1) = first # rest"
    by (cases "filter (\<lambda>r. cp_symbol r = ''EUR/USD'') (currencyPairs db1)") auto
  then have "first \<in> set (filter (\<lambda>r. cp_symbol r = ''EUR/USD'') (currencyPairs db1))"
    by simp
  with s(3) have first: "cp_symbol first = ''EUR/USD''" "cp_rate first = ''1.084200''"
    by auto
  have c: "filter (\<lambda>r. cp_symbol r = ''EUR/USD'') (map ?f rows)
      = map ?f (filter (\<lambda>r. cp_symbol r = ''EUR/USD'') rows)" for rows
    by (induction rows) auto
  have "filter (\<lambda>r. cp_symbol r = ''EUR/USD'') (map ?f (currencyPairs db1))
      = first\<lparr>cp_margin := ''0.50'', cp_updatedAt := Some t3\<rparr> # map ?f rest"
    using first(1) by (simp add: c f)
  with s(1) have g: "getCurrencyPairBySymbol ''EUR/USD''
        (db1\<lparr>currencyPairs := map ?f (currencyPairs db1)\<rparr>)
      = Inr (Some (first\<lparr>cp_margin := ''0.50'', cp_updatedAt := Some t3\<rparr>))"
    by (simp add: getCurrencyPairBySymbol_def)
  show ?thesis
    using s(4,5) first by (simp add: u g)
qed

lemma currency_database_seeded:
  "upsertCurrencyPair 1000 1000 eur_usd
     (empty_database\<lparr>users := [sample_user ''a1'' ''admin'', sample_user ''u1'' ''user'']\<rparr>)
   = (Inr eur_usd_row, currency_database)"
  unfolding currency_database_eq
  by (simp add: upsertCurrencyPair_def eur_usd_columns eur_usd_fields
      insert_on_conflict_do_update_def serial_id_def nextval_def empty_database_def
      eur_usd_row_def)

theorem updateCurrencyMargin_eur_usd_witness:
  "upsertCurrencyPair 1000 1000 eur_usd
     (empty_database\<lparr>users := [sample_user ''a1'' ''admin'', sample_user ''u1'' ''user'']\<rparr>)
   = (Inr eur_usd_row, currency_database)
   \<and> cp_margin eur_usd_row = ''0.25''
   \<and> fst (updateCurrencyMargin 2000 ''EUR/USD'' (Finite False 5 (- 1)) currency_database) = Inr ()
   \<and> (\<exists>pair. getCurrencyPairBySymbol ''EUR/USD''
                (snd (updateCurrencyMargin 2000 ''EUR/USD'' (Finite False 5 (- 1))
                        currency_database))
              = Inr (Some pair)
           \<and> cp_margin pair = ''0.50'' \<and> cp_rate pair = cp_rate eur_usd_row)"
  using updateCurrencyMargin_eur_usd [OF currency_database_seeded, of 2000]
    currency_database_seeded
  by simp




lemma currency_database_rows:
  "reachable currency_database" "currencyPairs currency_database = [eur_usd_row]"
  "users currency_database = [sample_user ''a1'' ''admin'', sample_user ''u1'' ''user'']"
  by (simp_all add: currency_database_eq empty_database_def)




section \<open>The margin route\<close>






section \<open>Insert with conflict target\<close>







section \<open>Stocks\<close>

lemma and_then_Inr:
  "and_then x f = Inr y \<longleftrightarrow> (\<exists>v. x = Inr v \<and> f v = Inr y)"
  by (cases x) simp_all






lemma getStocks_length:
  "reachable db \<Longrightarrow> \<exists>rows. getStocks db = Inr rows \<and> length rows = length (stocks db)"
  by (simp add: getStocks_def)









lemma stocks_database_rows:
  "reachable stocks_database" "stocks stocks_database = [aapl_row]"
  "stocks_id_seq stocks_database = 1"
  by (simp_all add: stocks_database_def empty_database_def)





section \<open>Market indices\<close>














lemma indices_database_rows:
  "reachable indices_database" "marketIndices indices_database = [spx_row]"
  "market_indices_id_seq indices_database = 1"
  by (simp_all add: indices_database_def empty_database_def)





section \<open>The push channel\<close>

lemma snapshot_Inr:
  "snapshot db1 db2 db3 db4 = Inr (ss, cs, ms, ns) \<longleftrightarrow>
     getStocks db1 = Inr ss \<and> getCurrencyPairs db2 = Inr cs
     \<and> getMarketIndices db3 = Inr ms
     \<and> getNewsArticles (Some (Finite False 10 0)) db4 = Inr ns"
  by (auto simp: snapshot_def and_then_Inr)

lemma snapshot_Inl:
  "(\<exists>e. snapshot db1 db2 db3 db4 = Inl e) \<longleftrightarrow>
     (\<exists>e. getStocks db1 = Inl e) \<or> (\<exists>e. getCurrencyPairs db2 = Inl e)
     \<or> (\<exists>e. getMarketIndices db3 = Inl e)
     \<or> (\<exists>e. getNewsArticles (Some (Finite False 10 0)) db4 = Inl e)"
proof (cases "snapshot db1 db2 db3 db4")
  case (Inl e)
  have "\<not> (\<exists>ss cs ms ns. getStocks db1 = Inr ss \<and> getCurrencyPairs db2 = Inr cs
     \<and> getMarketIndices db3 = Inr ms
     \<and> getNewsArticles (Some (Finite False 10 0)) db4 = Inr ns)"
    using Inl snapshot_Inr [of db1 db2 db3 db4] by auto
  then have "(\<exists>e. getStocks db1 = Inl e) \<or> (\<exists>e. getCurrencyPairs db2 = Inl e)
     \<or> (\<exists>e. getMarketIndices db3 = Inl e)
     \<or> (\<exists>e. getNewsArticles (Some (Finite False 10 0)) db4 = Inl e)"
    by (metis sum.exhaust)
  with Inl show ?thesis by blast
next
  case (Inr r)
  obtain ss cs ms ns where "r = (ss, cs, ms, ns)" by (cases r)
  with Inr snapshot_Inr [of db1 db2 db3 db4 ss cs ms ns] show ?thesis by auto
qed

text \<open>
  C10. Each push of \<open>sendMarketUpdate\<close> is all or nothing. When all four reads (stocks,
  currency pairs, market indices, the 10 most recent news) succeed, exactly one message
  with the four lists and the timestamp is sent if the socket is \<open>OPEN\<close> at that moment,
  and nothing is sent otherwise. When any one read fails, no message is sent and the
  failure is logged. So whatever is sent carries what all four reads returned.
\<close>

theorem sendMarketUpdate_all_or_nothing:
  "(getStocks db1 = Inr ss \<and> getCurrencyPairs db2 = Inr cs \<and> getMarketIndices db3 = Inr ms
     \<and> getNewsArticles (Some (Finite False 10 0)) db4 = Inr ns \<longrightarrow>
      sendMarketUpdate db1 db2 db3 db4 ready now
        = (if ready = OPEN
           then ([\<lparr>mu_stocks = ss, mu_currencies = cs, mu_indices = ms, mu_news = ns,
                   mu_timestamp = now\<rparr>], [])
           else ([], []))
      \<and> length ns \<le> 10
      \<and> sorted_wrt (\<lambda>a b. na_publishedAt b \<le> na_publishedAt a) ns)
   \<and> ((\<exists>e. getStocks db1 = Inl e) \<or> (\<exists>e. getCurrencyPairs db2 = Inl e)
       \<or> (\<exists>e. getMarketIndices db3 = Inl e)
       \<or> (\<exists>e. getNewsArticles (Some (Finite False 10 0)) db4 = Inl e) \<longrightarrow>
      sendMarketUpdate db1 db2 db3 db4 ready now = ([], [ErrorSendingMarketUpdate]))
   \<and> length (fst (sendMarketUpdate db1 db2 db3 db4 ready now)) \<le> 1
   \<and> (\<forall>m \<in> set (fst (sendMarketUpdate db1 db2 db3 db4 ready now)).
         ready = OPEN \<and> getStocks db1 = Inr (mu_stocks m)
         \<and> getCurrencyPairs db2 = Inr (mu_currencies m)
         \<and> getMarketIndices db3 = Inr (mu_indices m)
         \<and> getNewsArticles (Some (Finite False 10 0)) db4 = Inr (mu_news m)
         \<and> mu_timestamp m = now)"
proof (intro conjI impI)
  assume a: "getStocks db1 = Inr ss \<and> getCurrencyPairs db2 = Inr cs
     \<and> getMarketIndices db3 = Inr ms
     \<and> getNewsArticles (Some (Finite False 10 0)) db4 = Inr ns"
  then have "snapshot db1 db2 db3 db4 = Inr (ss, cs, ms, ns)"
    by (simp add: snapshot_Inr)
  then show "sendMarketUpdate db1 db2 db3 db4 ready now
        = (if ready = OPEN
           then ([\<lparr>mu_stocks = ss, mu_currencies = cs, mu_indices = ms, mu_news = ns,
                   mu_timestamp = now\<rparr>], [])
           else ([], []))"
    by (simp add: sendMarketUpdate_def)
  from a have n: "getNewsArticles (Some (Finite False 10 0)) db4 = Inr ns" by simp
  from getNewsArticles_Inr [OF n] show "length ns \<le> 10" by auto
  from getNewsArticles_Inr [OF n]
  show "sorted_wrt (\<lambda>a b. na_publishedAt b \<le> na_publishedAt a) ns"
    by (auto intro: sorted_wrt_take orderBy_desc_sorted)
next
  assume "(\<exists>e. getStocks db1 = Inl e) \<or> (\<exists>e. getCurrencyPairs db2 = Inl e)
       \<or> (\<exists>e. getMarketIndices db3 = Inl e)
       \<or> (\<exists>e. getNewsArticles (Some (Finite False 10 0)) db4 = Inl e)"
  then obtain e where "snapshot db1 db2 db3 db4 = Inl e"
    using snapshot_Inl [of db1 db2 db3 db4] by blast
  then show "sendMarketUpdate db1 db2 db3 db4 ready now = ([], [ErrorSendingMarketUpdate])"
    by (simp add: sendMarketUpdate_def)
next
  show "length (fst (sendMarketUpdate db1 db2 db3 db4 ready now)) \<le> 1"
    by (simp add: sendMarketUpdate_def split: sum.splits prod.splits)
next
  show "\<forall>m \<in> set (fst (sendMarketUpdate db1 db2 db3 db4 ready now)).
         ready = OPEN \<and> getStocks db1 = Inr (mu_stocks m)
         \<and> getCurrencyPairs db2 = Inr (mu_currencies m)
         \<and> getMarketIndices db3 = Inr (mu_indices m)
         \<and> getNewsArticles (Some (Finite False 10 0)) db4 = Inr (mu_news m)
         \<and> mu_timestamp m = now"
  proof (cases "snapshot db1 db2 db3 db4")
    case (Inl e)
    then show ?thesis by (simp add: sendMarketUpdate_def)
  next
    case (Inr r)
    obtain ss cs ms ns where r: "r = (ss, cs, ms, ns)" by (cases r)
    from Inr r have "getStocks db1 = Inr ss \<and> getCurrencyPairs db2 = Inr cs
     \<and> getMarketIndices db3 = Inr ms
     \<and> getNewsArticles (Some (Finite False 10 0)) db4 = Inr ns"
      by (simp add: snapshot_Inr)
    with Inr r show ?thesis by (simp add: sendMarketUpdate_def)
  qed
qed

lemma sample_reads:
  "getStocks stocks_database = Inr [aapl_row]"
  "getCurrencyPairs currency_database = Inr [eur_usd_row]"
  "getMarketIndices indices_database = Inr [spx_row]"
  "getNewsArticles (Some (Finite False 10 0)) news_database
     = Inr [sample_article 2 80, sample_article 3 60, sample_article 1 40]"
  "getStocks (stocks_database\<lparr>reachable := False\<rparr>) = Inl StorageUnavailable"
proof -
  show "getStocks stocks_database = Inr [aapl_row]"
    by (simp add: getStocks_def stocks_database_rows orderBy_desc_def)
  show "getCurrencyPairs currency_database = Inr [eur_usd_row]"
    by (simp add: getCurrencyPairs_def currency_database_rows orderBy_desc_def)
  show "getMarketIndices indices_database = Inr [spx_row]"
    by (simp add: getMarketIndices_def indices_database_rows orderBy_desc_def)
  show "getNewsArticles (Some (Finite False 10 0)) news_database
     = Inr [sample_article 2 80, sample_article 3 60, sample_article 1 40]"
    by (simp add: getNewsArticles_def news_database_def empty_database_def orderBy_desc_def
        sample_article_def)
  show "getStocks (stocks_database\<lparr>reachable := False\<rparr>) = Inl StorageUnavailable"
    by (simp add: getStocks_def)
qed

theorem sendMarketUpdate_all_or_nothing_witness:
  "getStocks stocks_database = Inr [aapl_row]
   \<and> getCurrencyPairs currency_database = Inr [eur_usd_row]
   \<and> getMarketIndices indices_database = Inr [spx_row]
   \<and> getNewsArticles (Some (Finite False 10 0)) news_database
       = Inr [sample_article 2 80, sample_article 3 60, sample_article 1 40]
   \<and> sendMarketUpdate stocks_database currency_database indices_database news_database
        OPEN 5000 = ([sample_update], [])
   \<and> sendMarketUpdate stocks_database currency_database indices_database news_database
        CLOSING 5000 = ([], [])
   \<and> getStocks (stocks_database\<lparr>reachable := False\<rparr>) = Inl StorageUnavailable
   \<and> sendMarketUpdate (stocks_database\<lparr>reachable := False\<rparr>) currency_database
        indices_database news_database OPEN 5000 = ([], [ErrorSendingMarketUpdate])"
proof -
  note r = sample_reads
  have ok: "getStocks stocks_database = Inr [aapl_row]
     \<and> getCurrencyPairs currency_database = Inr [eur_usd_row]
     \<and> getMarketIndices indices_database = Inr [spx_row]
     \<and> getNewsArticles (Some (Finite False 10 0)) news_database
         = Inr [sample_article 2 80, sample_article 3 60, sample_article 1 40]"
    using r(1) r(2) r(3) r(4) by (intro conjI)
  have bad: "(\<exists>e. getStocks (stocks_database\<lparr>reachable := False\<rparr>) = Inl e)
     \<or> (\<exists>e. getCurrencyPairs currency_database = Inl e)
     \<or> (\<exists>e. getMarketIndices indices_database = Inl e)
     \<or> (\<exists>e. getNewsArticles (Some (Finite False 10 0)) news_database = Inl e)"
    using r(5) by (intro disjI1 exI)
  have "sendMarketUpdate stocks_database currency_database indices_database
        news_database OPEN 5000
        = (if OPEN = OPEN
           then ([\<lparr>mu_stocks = [aapl_row], mu_currencies = [eur_usd_row],
                   mu_indices = [spx_row],
                   mu_news = [sample_article 2 80, sample_article 3 60, sample_article 1 40],
                   mu_timestamp = 5000\<rparr>], [])
           else ([], []))"
    by (rule sendMarketUpdate_all_or_nothing
     [of stocks_database "[aapl_row]" currency_database "[eur_usd_row]" indices_database
       "[spx_row]" news_database
       "[sample_article 2 80, sample_article 3 60, sample_article 1 40]" OPEN 5000,
      THEN conjunct1, THEN mp, OF ok, THEN conjunct1])
  then have sent: "sendMarketUpdate stocks_database currency_database indices_database
        news_database OPEN 5000 = ([sample_update], [])"
    by (simp only: sample_update_def if_True refl)
  have "sendMarketUpdate stocks_database currency_database indices_database
        news_database CLOSING 5000
        = (if CLOSING = OPEN
           then ([\<lparr>mu_stocks = [aapl_row], mu_currencies = [eur_usd_row],
                   mu_indices = [spx_row],
                   mu_news = [sample_article 2 80, sample_article 3 60, sample_article 1 40],
                   mu_timestamp = 5000\<rparr>], [])
           else ([], []))"
    by (rule sendMarketUpdate_all_or_nothing
     [of stocks_database "[aapl_row]" currency_database "[eur_usd_row]" indices_database
       "[spx_row]" news_database
       "[sample_article 2 80, sample_article 3 60, sample_article 1 40]" CLOSING 5000,
      THEN conjunct1, THEN mp, OF ok, THEN conjunct1])
  then have stale: "sendMarketUpdate stocks_database currency_database indices_database
        news_database CLOSING 5000 = ([], [])"
    by (simp only: readyState.distinct if_False)
  have failed: "sendMarketUpdate (stocks_database\<lparr>reachable := False\<rparr>) currency_database
        indices_database news_database OPEN 5000 = ([], [ErrorSendingMarketUpdate])"
    by (rule sendMarketUpdate_all_or_nothing
     [of "stocks_database\<lparr>reachable := False\<rparr>" "[aapl_row]" currency_database
       "[eur_usd_row]" indices_database "[spx_row]" news_database
       "[sample_article 2 80, sample_article 3 60, sample_article 1 40]" OPEN 5000,
      THEN conjunct2, THEN conjunct1, THEN mp, OF bad])
  show ?thesis
    using r(1) r(2) r(3) r(4) sent stale r(5) failed by (intro conjI)
qed

section \<open>Connections and their timers\<close>

lemma step_other:
  "c' \<noteq> c \<Longrightarrow> step (Close c) s c' = s c'"
  "c' \<noteq> c \<Longrightarrow> step (Error c) s c' = s c'"
  by (simp_all split: option.splits)

lemma sendMarketUpdate_not_open:
  "ready \<noteq> OPEN \<Longrightarrow> fst (sendMarketUpdate db1 db2 db3 db4 ready now) = []"
  by (simp add: sendMarketUpdate_def split: sum.splits prod.splits)

lemma stage_not_open: "2 \<le> stage ready \<Longrightarrow> ready \<noteq> OPEN"
  by (cases ready) simp_all

lemma stage_forward: "2 \<le> stage a \<Longrightarrow> stage a \<le> stage b \<Longrightarrow> 2 \<le> stage b"
  by simp

lemma step_silent:
  assumes "s c = Some later" and "silent conn later"
  shows "\<exists>later'. step ev s c = Some later' \<and> silent conn later'"
proof (cases ev)
  case (Connection c')
  with assms show ?thesis by (cases "s c'") auto
next
  case (IntervalElapsed c')
  with assms show ?thesis
    by (cases "s c'") (auto simp: silent_def)
next
  case (ReadsSettled c' db1 db2 db3 db4 now)
  show ?thesis
  proof (cases "c' = c")
    case True
    from assms(2) have "readyState later \<noteq> OPEN"
      by (simp add: silent_def stage_not_open)
    then have "fst (sendMarketUpdate db1 db2 db3 db4 (readyState later) now) = []"
      by (rule sendMarketUpdate_not_open)
    with assms True ReadsSettled show ?thesis
      by (simp add: silent_def)
  next
    case False
    with assms ReadsSettled show ?thesis
      by (cases "s c'") auto
  qed
next
  case (TransportState c' ready)
  with assms show ?thesis
    by (cases "s c'") (auto simp: silent_def)
next
  case (Close c')
  with assms show ?thesis
    by (cases "s c'") (auto simp: silent_def on_close_def)
next
  case (Error c')
  with assms show ?thesis
    by (cases "s c'") (auto simp: silent_def on_error_def)
qed

lemma run_silent:
  "s c = Some later \<Longrightarrow> silent conn later \<Longrightarrow>
   \<exists>later'. run events s c = Some later' \<and> silent conn later'"
proof (induction events arbitrary: s later)
  case Nil
  then show ?case by simp
next
  case (Cons ev events)
  from step_silent [where s = s and c = c, OF Cons.prems, of ev] obtain later'
    where "step ev s c = Some later'" and "silent conn later'" by blast
  from Cons.IH [where s = "step ev s", OF this] show ?case by simp
qed

lemma closed_silent:
  assumes "s c = Some conn" and "ev = Close c \<or> ev = Error c"
  shows "\<exists>closed. step ev s c = Some closed \<and> silent conn closed"
  using assms by (auto simp: silent_def on_close_def on_error_def)

text \<open>
  C7. When a connection's socket emits \<open>close\<close> or \<open>error\<close>, the handler clears the
  connection's interval and neither assembles nor sends anything; whatever events follow
  and however many, the interval stays cleared and the connection's count of snapshot
  assemblies and its sent messages stay as they were. Every other connection is as it
  was before the event.
\<close>

theorem closed_connection_stays_silent:
  assumes "s c = Some conn" and "ev = Close c \<or> ev = Error c"
  shows "(\<exists>closed. step ev s c = Some closed \<and> updateInterval closed = None
            \<and> sent closed = sent conn \<and> assembled closed = assembled conn)
       \<and> (\<exists>later. run events (step ev s) c = Some later \<and> updateInterval later = None
            \<and> sent later = sent conn \<and> assembled later = assembled conn)
       \<and> (c' \<noteq> c \<longrightarrow> step ev s c' = s c')"
proof (intro conjI impI)
  from closed_silent [where s = s and c = c, OF assms] obtain closed
    where c: "step ev s c = Some closed" and s: "silent conn closed" by blast
  from c s show "\<exists>closed. step ev s c = Some closed \<and> updateInterval closed = None
            \<and> sent closed = sent conn \<and> assembled closed = assembled conn"
    by (auto simp: silent_def)
  from run_silent [where s = "step ev s" and c = c, OF c s, of events]
  show "\<exists>later. run events (step ev s) c = Some later \<and> updateInterval later = None
            \<and> sent later = sent conn \<and> assembled later = assembled conn"
    by (auto simp: silent_def)
next
  assume "c' \<noteq> c"
  with assms(2) show "step ev s c' = s c'"
    by (metis step_other)
qed

lemma step_keeps_timer:
  assumes "s c = Some conn" and "ev \<noteq> Close c" and "ev \<noteq> Error c"
  shows "\<exists>conn'. step ev s c = Some conn' \<and> updateInterval conn' = updateInterval conn"
proof (cases ev)
  case (Connection c')
  with assms show ?thesis by (cases "s c'") auto
next
  case (IntervalElapsed c')
  with assms show ?thesis
    by (cases "s c'") (auto simp: sendMarketUpdate_called_def)
next
  case (ReadsSettled c' db1 db2 db3 db4 now)
  with assms show ?thesis by (cases "s c'") auto
next
  case (TransportState c' ready)
  with assms show ?thesis by (cases "s c'") auto
next
  case (Close c')
  with assms show ?thesis by (cases "s c'") auto
next
  case (Error c')
  with assms show ?thesis by (cases "s c'") auto
qed

text \<open>
  C8. When the reads of a tick fail, the failure is logged and nothing is sent for that
  tick; the connection's socket state and its recurring 4-second timer are as before, so
  the next tick begins a new assembly. A new connection starts with the timer set to
  4000 ms, and no event other than the connection's own \<open>close\<close> or \<open>error\<close> changes
  the timer.
\<close>

theorem failed_assembly_keeps_timer:
  assumes "s c = Some conn" and "0 < pending conn"
    and "(\<exists>e. getStocks db1 = Inl e) \<or> (\<exists>e. getCurrencyPairs db2 = Inl e)
       \<or> (\<exists>e. getMarketIndices db3 = Inl e)
       \<or> (\<exists>e. getNewsArticles (Some (Finite False 10 0)) db4 = Inl e)"
  shows "(\<exists>after. step (ReadsSettled c db1 db2 db3 db4 now) s c = Some after
            \<and> console after = console conn @ [ErrorSendingMarketUpdate]
            \<and> sent after = sent conn \<and> readyState after = readyState conn
            \<and> updateInterval after = updateInterval conn
            \<and> (updateInterval conn = Some 4000 \<longrightarrow>
                 (\<exists>next. step (IntervalElapsed c) (step (ReadsSettled c db1 db2 db3 db4 now) s) c
                           = Some next
                    \<and> assembled next = assembled after + 1
                    \<and> updateInterval next = Some 4000)))
       \<and> (ev \<noteq> Close c \<and> ev \<noteq> Error c \<longrightarrow>
            (\<exists>conn'. step ev s c = Some conn' \<and> updateInterval conn' = updateInterval conn))
       \<and> step (Connection c) (s(c := None)) c = Some on_connection
       \<and> updateInterval on_connection = Some 4000"
proof (intro conjI impI)
  from assms(3) obtain e where "snapshot db1 db2 db3 db4 = Inl e"
    using snapshot_Inl [of db1 db2 db3 db4] by blast
  then have f: "sendMarketUpdate db1 db2 db3 db4 ready now = ([], [ErrorSendingMarketUpdate])"
    for ready
    by (simp add: sendMarketUpdate_def)
  let ?after = "conn\<lparr>pending := pending conn - 1,
                      console := console conn @ [ErrorSendingMarketUpdate]\<rparr>"
  from assms(1,2) have a: "step (ReadsSettled c db1 db2 db3 db4 now) s c = Some ?after"
    by (simp add: f)
  have "\<exists>next. step (IntervalElapsed c) (step (ReadsSettled c db1 db2 db3 db4 now) s) c
                   = Some next
            \<and> assembled next = assembled ?after + 1 \<and> updateInterval next = Some 4000"
    if "updateInterval conn = Some 4000"
    using a that by (simp add: sendMarketUpdate_called_def)
  with a show "\<exists>after. step (ReadsSettled c db1 db2 db3 db4 now) s c = Some after
            \<and> console after = console conn @ [ErrorSendingMarketUpdate]
            \<and> sent after = sent conn \<and> readyState after = readyState conn
            \<and> updateInterval after = updateInterval conn
            \<and> (updateInterval conn = Some 4000 \<longrightarrow>
                 (\<exists>next. step (IntervalElapsed c) (step (ReadsSettled c db1 db2 db3 db4 now) s) c
                           = Some next
                    \<and> assembled next = assembled after + 1
                    \<and> updateInterval next = Some 4000))"
    by (intro exI [of _ ?after]) simp
next
  assume "ev \<noteq> Close c \<and> ev \<noteq> Error c"
  with assms(1) show "\<exists>conn'. step ev s c = Some conn' \<and> updateInterval conn' = updateInterval conn"
    by (intro step_keeps_timer) simp_all
next
  show "step (Connection c) (s(c := None)) c = Some on_connection" by simp
  show "updateInterval on_connection = Some 4000" by (simp add: on_connection_def)
qed

lemma on_connection_fields:
  "pending on_connection = 1" "assembled on_connection = 1" "sent on_connection = []"
  "readyState on_connection = OPEN" "updateInterval on_connection = Some 4000"
  "console on_connection = [NewWebSocketConnection]"
  "pending (sendMarketUpdate_called conn) = pending conn + 1"
  "assembled (sendMarketUpdate_called conn) = assembled conn + 1"
  "sent (sendMarketUpdate_called conn) = sent conn"
  "console (sendMarketUpdate_called conn) = console conn"
  "readyState (sendMarketUpdate_called conn) = readyState conn"
  "updateInterval (sendMarketUpdate_called conn) = updateInterval conn"
  by (simp_all add: on_connection_def sendMarketUpdate_called_def)

lemma two_connections_eq:
  "two_connections 2 = Some (sendMarketUpdate_called on_connection)"
  "two_connections 3 = Some on_connection"
  by (simp_all add: two_connections_def on_connection_fields)

theorem closed_connection_stays_silent_witness:
  "two_connections 2 = Some (sendMarketUpdate_called on_connection)
   \<and> (\<exists>closed. step (Close 2) two_connections 2 = Some closed
         \<and> updateInterval closed = None \<and> sent closed = [] \<and> assembled closed = 2)
   \<and> (\<exists>later. run [IntervalElapsed 2,
                     ReadsSettled 2 stocks_database currency_database indices_database
                       news_database 5000,
                     IntervalElapsed 3, IntervalElapsed 2]
                  (step (Close 2) two_connections) 2 = Some later
         \<and> updateInterval later = None \<and> sent later = [] \<and> assembled later = 2)
   \<and> step (Close 2) two_connections 3 = Some on_connection"
proof -
  have f: "sent (sendMarketUpdate_called on_connection) = []"
    "assembled (sendMarketUpdate_called on_connection) = 2"
    by (simp_all add: on_connection_fields)
  from closed_connection_stays_silent
    [where s = two_connections and c = 2 and ev = "Close 2" and c' = 3
       and events = "[IntervalElapsed 2,
          ReadsSettled 2 stocks_database currency_database indices_database
            news_database 5000,
          IntervalElapsed 3, IntervalElapsed 2]",
     OF two_connections_eq(1) disjI1 [OF refl], unfolded f]
    two_connections_eq
  show ?thesis
    by (simp del: step.simps run.simps)
qed

theorem failed_assembly_keeps_timer_witness:
  "two_connections 2 = Some (sendMarketUpdate_called on_connection)
   \<and> 0 < pending (sendMarketUpdate_called on_connection)
   \<and> getStocks (stocks_database\<lparr>reachable := False\<rparr>) = Inl StorageUnavailable
   \<and> (\<exists>after. step (ReadsSettled 2 (stocks_database\<lparr>reachable := False\<rparr>)
                       currency_database indices_database news_database 5000)
                  two_connections 2 = Some after
         \<and> console after = [NewWebSocketConnection, ErrorSendingMarketUpdate]
         \<and> sent after = [] \<and> readyState after = OPEN \<and> updateInterval after = Some 4000
         \<and> (\<exists>next. step (IntervalElapsed 2)
                        (step (ReadsSettled 2 (stocks_database\<lparr>reachable := False\<rparr>)
                                 currency_database indices_database news_database 5000)
                           two_connections) 2 = Some next
               \<and> assembled next = assembled after + 1 \<and> updateInterval next = Some 4000))
   \<and> (\<exists>conn'. step (Close 3) two_connections 2 = Some conn'
         \<and> updateInterval conn' = Some 4000)"
proof -
  have f: "sent (sendMarketUpdate_called on_connection) = []"
    "console (sendMarketUpdate_called on_connection) = [NewWebSocketConnection]"
    "readyState (sendMarketUpdate_called on_connection) = OPEN"
    "updateInterval (sendMarketUpdate_called on_connection) = Some 4000"
    and p: "0 < pending (sendMarketUpdate_called on_connection)"
    by (simp_all add: on_connection_fields)
  have r: "(\<exists>e. getStocks (stocks_database\<lparr>reachable := False\<rparr>) = Inl e)
       \<or> (\<exists>e. getCurrencyPairs currency_database = Inl e)
       \<or> (\<exists>e. getMarketIndices indices_database = Inl e)
       \<or> (\<exists>e. getNewsArticles (Some (Finite False 10 0)) news_database = Inl e)"
    using sample_reads(5) by blast
  from failed_assembly_keeps_timer
    [where s = two_connections and c = 2 and ev = "Close 3" and now = 5000,
     OF two_connections_eq(1) p r, unfolded f]
    two_connections_eq(1) p sample_reads(5)
  show ?thesis
    by (simp del: step.simps run.simps)
qed

end
